theory Spec2Isabelle
  imports Main "HOL-Library.Word"
begin

section \<open>Values exchanged with net/http\<close>

text \<open>
  Go's \<^verbatim>\<open>http.Header\<close> is a \<^verbatim>\<open>map[string][]string\<close>: a partial map from header
  names to the list of values stored under that name. Indexing a Go map with a key it
  does not hold gives the zero value, for a slice the empty one; the two-result form
  also tells whether the key is there.
\<close>

type_synonym http_header = "string \<rightharpoonup> string list"

definition index :: "http_header \<Rightarrow> string \<Rightarrow> string list" where
  "index m k = (case m k of None \<Rightarrow> [] | Some vs \<Rightarrow> vs)"

definition has_key :: "http_header \<Rightarrow> string \<Rightarrow> bool" where
  "has_key m k = (case m k of None \<Rightarrow> False | Some vs \<Rightarrow> True)"

text \<open>A Go \<^verbatim>\<open>error\<close> is known here by the text its \<^verbatim>\<open>Error()\<close> method returns.\<close>

datatype error = Err string

fun Error :: "error \<Rightarrow> string" where
  "Error (Err s) = s"

text \<open>A run-time panic of the Go program; the only one the gateway's own code can raise
  is the dereference of a nil \<^verbatim>\<open>routeRequest\<close>.\<close>

datatype panic = NilPointerDereference | Panic string

text \<open>The inbound request, as a handler sees it: \<^verbatim>\<open>r.Method\<close>, \<^verbatim>\<open>r.URL.Path\<close>,
  \<^verbatim>\<open>r.Header\<close> and the bytes of \<^verbatim>\<open>r.Body\<close>.\<close>

record request =
  Method :: string
  URLPath :: string
  Header :: http_header
  Body :: string

text \<open>The outbound request built by \<^verbatim>\<open>http.NewRequestWithContext\<close>; \<open>oBody = None\<close> is
  the nil body.\<close>

record outreq =
  oMethod :: string
  oUrl :: string
  oBody :: "string option"
  oHeader :: http_header

text \<open>The backend's \<^verbatim>\<open>*http.Response\<close>: \<open>respBody\<close> is what \<^verbatim>\<open>io.ReadAll(resp.Body)\<close>
  returns, the whole body or the error that interrupted the read.\<close>

record response =
  StatusCode :: int
  respHeader :: http_header
  respBody :: "error + string"

text \<open>
  Everything a handler can change while it serves one request: the
  \<^verbatim>\<open>http.ResponseWriter\<close> (the header map \<open>wHeader\<close> still open to changes, the status
  line \<open>wStatus\<close> with the headers frozen at the first \<^verbatim>\<open>WriteHeader\<close>, the body bytes
  written so far) and the trace of the effects on the outside world, oldest first.
\<close>

datatype event =
    ClientDo int outreq
  | CloseRequestBody
  | CloseResponseBody
  | Log string

record exchange =
  wHeader :: http_header
  wStatus :: "(int \<times> http_header) option"
  wBody :: string
  events :: "event list"

definition fresh :: exchange where
  "fresh = \<lparr>wHeader = Map.empty, wStatus = None, wBody = [], events = []\<rparr>"

text \<open>The \<^verbatim>\<open>http.ResponseWriter\<close> contract: \<^verbatim>\<open>Header().Set\<close> replaces the values of a
  name, \<^verbatim>\<open>Header().Add\<close> appends one, the first \<^verbatim>\<open>WriteHeader\<close> fixes the status and
  the headers and later ones are ignored, \<^verbatim>\<open>Write\<close> sends status 200 first when no
  status was sent. The names set by the code below are in canonical form already.\<close>

definition Set :: "string \<Rightarrow> string \<Rightarrow> exchange \<Rightarrow> exchange" where
  "Set k v w = w\<lparr>wHeader := (wHeader w)(k \<mapsto> [v])\<rparr>"

definition Add :: "string \<Rightarrow> string \<Rightarrow> exchange \<Rightarrow> exchange" where
  "Add k v w = w\<lparr>wHeader := (wHeader w)(k \<mapsto> index (wHeader w) k @ [v])\<rparr>"

definition WriteHeader :: "int \<Rightarrow> exchange \<Rightarrow> exchange" where
  "WriteHeader code w =
     (case wStatus w of
        None \<Rightarrow> w\<lparr>wStatus := Some (code, wHeader w)\<rparr>
      | Some s \<Rightarrow> w)"

definition Write :: "string \<Rightarrow> exchange \<Rightarrow> exchange" where
  "Write b w =
     (let w' = (case wStatus w of None \<Rightarrow> WriteHeader 200 w | Some s \<Rightarrow> w)
      in w'\<lparr>wBody := wBody w' @ b\<rparr>)"

definition emit :: "event \<Rightarrow> exchange \<Rightarrow> exchange" where
  "emit e w = w\<lparr>events := events w @ [e]\<rparr>"

text \<open>\<^verbatim>\<open>http.Handler\<close>: serving changes the exchange, or panics. \<^verbatim>\<open>Middleware\<close>
  (condition.go, line 10) maps a handler to a handler.\<close>

type_synonym handler = "request \<Rightarrow> exchange \<Rightarrow> panic + exchange"

type_synonym Middleware = "handler \<Rightarrow> handler"

section \<open>Conditions (condition.go)\<close>

record middlewareChain =
  middlewares :: "Middleware list"

record RouteRequest =
  Url :: string
  HttpMethod :: string
  Timeout :: int
  PassRequestBody :: bool

record headerValue =
  Key :: string
  Value :: string

text \<open>The pointer fields \<^verbatim>\<open>routeRequest\<close> and \<^verbatim>\<open>headerValue\<close> and the function value
  \<^verbatim>\<open>handlerFunc\<close> may be nil: \<open>None\<close>.\<close>

record Condition =
  httpMethod :: string
  routeRequest :: "RouteRequest option"
  header :: string
  headerValue :: "headerValue option"
  path :: string
  handlerFunc :: "handler option"
  middlewares :: middlewareChain

text \<open>\<^verbatim>\<open>Condition.Middlewares\<close> (lines 123--126) stores a copy of its arguments, in the
  order of the call: \<^verbatim>\<open>append(([]Middleware)(nil), middlewares...)\<close>.\<close>

definition Middlewares :: "Middleware list \<Rightarrow> Condition \<Rightarrow> Condition" where
  "Middlewares ms c = c\<lparr>middlewares := \<lparr>middlewareChain.middlewares = [] @ ms\<rparr>\<rparr>"

section \<open>Matching and dispatch (gag.go)\<close>

text \<open>\<^verbatim>\<open>hasHeaderValue\<close> (lines 265--272): the loop returns at the first equal value.\<close>

fun hasHeaderValue :: "string \<Rightarrow> string list \<Rightarrow> bool" where
  "hasHeaderValue v [] = False"
| "hasHeaderValue v (x # xs) = (if x = v then True else hasHeaderValue v xs)"

text \<open>The closure registered by \<^verbatim>\<open>mux.HandleFunc(c.path, ...)\<close> (lines 241--261), with
  \<open>h\<close> the handler built for the condition. A branch of the source that ends without a
  call of \<^verbatim>\<open>h.ServeHTTP\<close> returns with the exchange as it was.\<close>

definition dispatch :: "Condition \<Rightarrow> handler \<Rightarrow> handler" where
  "dispatch c h r w =
     (if (httpMethod c \<noteq> [] \<and> httpMethod c = Method r) \<or> httpMethod c = [] then
        if has_key (Header r) (header c) then
          (case headerValue c of
             Some hv \<Rightarrow>
               if hasHeaderValue (Value hv) (index (Header r) (Key hv))
                  \<and> has_key (Header r) (Key hv)
               then h r w else Inr w
           | None \<Rightarrow> h r w)
        else if header c = [] then
          (case headerValue c of
             Some hv \<Rightarrow>
               if hasHeaderValue (Value hv) (index (Header r) (Key hv))
               then h r w else Inr w
           | None \<Rightarrow> h r w)
        else Inr w
      else Inr w)"

section \<open>Middleware chain (condition.go)\<close>

text \<open>What the gateway takes from its libraries and from the network, as parameters:
  whether \<^verbatim>\<open>http.NewRequestWithContext\<close> rejects a method and URL; what one call of
  \<^verbatim>\<open>client.Do\<close> returns for a timeout and an outbound request, and the requests that
  net/http's client sends to the backend during that one call (the request itself, then
  the redirects the client follows and the repeats of its transport); whether a
  gorilla/mux route template matches a request path; Go's \<^verbatim>\<open>path.Clean\<close>; the text of
  the request's URL with another path (\<^verbatim>\<open>url.String()\<close>); the router's handler for a
  request no route matches; and the handler that a new empty \<^verbatim>\<open>http.ServeMux\<close> is.\<close>

record env =
  requestError :: "string \<Rightarrow> string \<Rightarrow> error option"
  clientDo :: "int \<Rightarrow> outreq \<Rightarrow> error + response"
  roundTrips :: "int \<Rightarrow> outreq \<Rightarrow> outreq list"
  pathMatches :: "string \<Rightarrow> string \<Rightarrow> bool"
  pathClean :: "string \<Rightarrow> string"
  urlString :: "request \<Rightarrow> string \<Rightarrow> string"
  NotFoundHandler :: handler
  NewServeMux :: handler

text \<open>\<^verbatim>\<open>middlewareChain.wrap\<close> (lines 159--171). \<open>wrap_loop i ms\<close> is the loop
  \<^verbatim>\<open>for i := range mc.middlewares\<close> from index \<open>i\<close> on, \<open>ms\<close> the middlewares from
  that index, \<open>hf\<close> the parameter \<^verbatim>\<open>handlerFunc\<close>; a nil \<open>h\<close> is replaced by a new
  \<^verbatim>\<open>ServeMux\<close> first.\<close>

fun wrap_loop :: "nat \<Rightarrow> Middleware list \<Rightarrow> handler \<Rightarrow> handler \<Rightarrow> handler" where
  "wrap_loop i [] hf h = h"
| "wrap_loop i (m # ms) hf h = wrap_loop (Suc i) ms hf (if i = 0 then m hf else m h)"

definition wrap :: "env \<Rightarrow> middlewareChain \<Rightarrow> handler \<Rightarrow> handler option \<Rightarrow> handler" where
  "wrap e mc hf h =
     wrap_loop 0 (middlewareChain.middlewares mc) hf
       (case h of None \<Rightarrow> NewServeMux e | Some h' \<Rightarrow> h')"

section \<open>Proxy forwarding (gag.go)\<close>

text \<open>\<^verbatim>\<open>http.NewRequestWithContext\<close>: an error for a method or URL it rejects, else the
  request with the method (GET for the empty one), the URL and the body given, and no
  header yet.\<close>

definition NewRequestWithContext ::
  "env \<Rightarrow> string \<Rightarrow> string \<Rightarrow> string option \<Rightarrow> error + outreq" where
  "NewRequestWithContext e m u b =
     (case requestError e m u of
        Some err \<Rightarrow> Inl err
      | None \<Rightarrow> Inr \<lparr>oMethod = (if m = [] then ''GET'' else m), oUrl = u, oBody = b,
                      oHeader = Map.empty\<rparr>)"

text \<open>The two statements of every error return of the proxy closure:
  \<^verbatim>\<open>w.WriteHeader(http.StatusInternalServerError); w.Write([]byte(err.Error()))\<close>.\<close>

definition internalServerError :: "error \<Rightarrow> exchange \<Rightarrow> exchange" where
  "internalServerError err w = Write (Error err) (WriteHeader 500 w)"

text \<open>The proxy closure, written twice in \<^verbatim>\<open>configureMuxHandlers\<close> with the same text
  (lines 123--177 under middlewares, lines 183--237 without). Its first statement reads
  \<^verbatim>\<open>c.routeRequest.Timeout\<close>, a panic when \<^verbatim>\<open>routeRequest\<close> is nil. The deferred closes
  run when the closure returns, the last deferred first.\<close>

definition proxy :: "env \<Rightarrow> Condition \<Rightarrow> handler" where
  "proxy e c r w =
     (case routeRequest c of
        None \<Rightarrow> Inl NilPointerDereference
      | Some rr \<Rightarrow>
          if PassRequestBody rr then
            (case NewRequestWithContext e (HttpMethod rr) (Url rr) (Some (Body r)) of
               Inl err \<Rightarrow> Inr (emit CloseRequestBody (internalServerError err w))
             | Inr req0 \<Rightarrow>
                 let req = req0\<lparr>oHeader := (oHeader req0)(''Content-Type'' \<mapsto> [''application/json''])\<rparr>;
                     w1 = emit (ClientDo (Timeout rr) req) w
                 in (case clientDo e (Timeout rr) req of
                       Inl err \<Rightarrow> Inr (emit CloseRequestBody (internalServerError err w1))
                     | Inr resp \<Rightarrow>
                         (case respBody resp of
                            Inl err \<Rightarrow>
                              Inr (emit CloseRequestBody (emit CloseResponseBody
                                     (internalServerError err w1)))
                          | Inr bodyBytes \<Rightarrow>
                              Inr (emit CloseRequestBody (emit CloseResponseBody
                                     (Write bodyBytes (WriteHeader (StatusCode resp)
                                        (Set ''Content-Type'' ''application/json'' w1))))))))
          else
            (case NewRequestWithContext e (HttpMethod rr) (Url rr) None of
               Inl err \<Rightarrow> Inr (internalServerError err w)
             | Inr req \<Rightarrow>
                 let w1 = emit (ClientDo (Timeout rr) req) w
                 in (case clientDo e (Timeout rr) req of
                       Inl err \<Rightarrow> Inr (internalServerError err w1)
                     | Inr resp \<Rightarrow>
                         (case respBody resp of
                            Inl err \<Rightarrow> Inr (emit CloseResponseBody (internalServerError err w1))
                          | Inr bodyBytes \<Rightarrow>
                              Inr (emit CloseResponseBody
                                     (Write bodyBytes (WriteHeader (StatusCode resp)
                                        (Set ''Content-Type'' ''application/json'' w1))))))))"

section \<open>Routing (gag.go)\<close>

text \<open>The variable \<open>h\<close> of \<^verbatim>\<open>configureMuxHandlers\<close> when the function reaches line 241:
  the local handler or the proxy closure, wrapped when the chain is not empty. \<open>h\<close> is
  still nil when it is passed to \<^verbatim>\<open>wrap\<close>.\<close>

definition terminal :: "env \<Rightarrow> Condition \<Rightarrow> handler" where
  "terminal e c = (case handlerFunc c of Some f \<Rightarrow> f | None \<Rightarrow> proxy e c)"

definition built :: "env \<Rightarrow> Condition \<Rightarrow> handler" where
  "built e c =
     (if length (middlewareChain.middlewares (middlewares c)) > 0 then
        (case handlerFunc c of
           Some f \<Rightarrow> wrap e (middlewares c) f None
         | None \<Rightarrow> wrap e (middlewares c) (proxy e c) None)
      else
        (case handlerFunc c of
           Some f \<Rightarrow> f
         | None \<Rightarrow> proxy e c))"

text \<open>gorilla/mux's \<^verbatim>\<open>cleanPath\<close>: the empty path is the root, a path gets its leading
  slash, \<^verbatim>\<open>path.Clean\<close> does the rest, and a trailing slash that it removed is put
  back.\<close>

definition cleanPath :: "env \<Rightarrow> string \<Rightarrow> string" where
  "cleanPath e p =
     (if p = [] then ''/''
      else
        let p1 = (if hd p \<noteq> CHR ''/'' then ''/'' @ p else p);
            np = pathClean e p1
        in if last p1 = CHR ''/'' \<and> np \<noteq> ''/'' then np @ ''/'' else np)"

text \<open>\<^verbatim>\<open>Router.Match\<close> over the routes in registration order: the handler of the first
  route whose template matches the path.\<close>

fun Match :: "env \<Rightarrow> (string \<times> handler) list \<Rightarrow> request \<Rightarrow> handler option" where
  "Match e [] r = None"
| "Match e ((p, h) # routes) r = (if pathMatches e p (URLPath r) then Some h else Match e routes r)"

text \<open>\<^verbatim>\<open>Router.ServeHTTP\<close> of gorilla/mux: a path that is not clean is answered with
  status 301 and the clean URL in \<^verbatim>\<open>Location\<close>, before any route is tried; otherwise
  the matching route's handler serves the request, and the not-found handler when no
  route matches.\<close>

definition Router :: "env \<Rightarrow> (string \<times> handler) list \<Rightarrow> handler" where
  "Router e routes r w =
     (let p = cleanPath e (URLPath r) in
      if p \<noteq> URLPath r then
        Inr (WriteHeader 301 (Set ''Location'' (urlString e r p) w))
      else
        (case Match e routes r of
           Some h \<Rightarrow> h r w
         | None \<Rightarrow> NotFoundHandler e r w))"

definition configureMuxHandlers :: "env \<Rightarrow> Condition \<Rightarrow> handler" where
  "configureMuxHandlers e c = Router e [(path c, dispatch c (built e c))]"

text \<open>The router that \<^verbatim>\<open>configureHandler\<close> (lines 104--113) stores in \<^verbatim>\<open>g.mux\<close>: one
  route for each condition, in the order of the registry.\<close>

definition gateway :: "env \<Rightarrow> Condition list \<Rightarrow> handler" where
  "gateway e cs = Router e (map (\<lambda>c. (path c, configureMuxHandlers e c)) cs)"

section \<open>Start-up (gag.go)\<close>

text \<open>\<^verbatim>\<open>l.Addr()\<close> of a listener: a \<^verbatim>\<open>*net.TCPAddr\<close> with its port, or an address of
  another kind.\<close>

datatype addr = TCPAddr int | OtherAddr

text \<open>The structs \<^verbatim>\<open>Config\<close> and \<^verbatim>\<open>Gag\<close>; the field \<^verbatim>\<open>s\<close> of \<^verbatim>\<open>Gag\<close> is never assigned
  and \<^verbatim>\<open>log\<close> has no state. \<^verbatim>\<open>NewGag\<close> (lines 78--85) starts with an empty registry.\<close>

record Config =
  Port :: "16 word"

record Gag =
  port :: "16 word"
  l :: "addr option"
  conditions :: "Condition list"
  mux :: "handler option"

definition NewGag :: "Config \<Rightarrow> Gag" where
  "NewGag cfg = \<lparr>port = Port cfg, l = None, conditions = [], mux = None\<rparr>"

text \<open>What start-up does to the outside world, oldest first: the call of \<^verbatim>\<open>net.Listen\<close>
  with its address, a line of the logger (\<^verbatim>\<open>logger.Println\<close>, known by its message), a
  line of \<^verbatim>\<open>fmt.Printf\<close>, and the entry into the accept loop of \<^verbatim>\<open>http.Serve\<close>.\<close>

datatype action = NetListen string | Println string | Printf string | HttpServe

text \<open>The operating system, as parameters: what \<^verbatim>\<open>net.Listen("tcp", address)\<close> returns,
  and how \<^verbatim>\<open>http.Serve\<close> ends: \<open>None\<close> when its accept loop never returns, else the
  error (or nil) it returns.\<close>

record sys =
  netListen :: "string \<Rightarrow> error + addr"
  httpServe :: "error option option"

text \<open>The result of a start-up function: it returned an error or nil, or it is still
  serving.\<close>

datatype outcome = Returned "error option" | Serving

text \<open>The verb \<^verbatim>\<open>%d\<close> of \<^verbatim>\<open>fmt.Sprintf\<close> on an unsigned number.\<close>

definition digit :: "nat \<Rightarrow> char" where
  "digit d = ''0123456789'' ! d"

fun decimal :: "nat \<Rightarrow> string" where
  "decimal n = (if n < 10 then [digit n] else decimal (n div 10) @ [digit (n mod 10)])"

declare decimal.simps [simp del]

text \<open>\<^verbatim>\<open>validateConditions\<close> (lines 95--102): the loop returns at the first condition
  with the empty path.\<close>

fun validateLoop :: "Condition list \<Rightarrow> error option" where
  "validateLoop [] = None"
| "validateLoop (c # cs) =
     (if path c = [] then Some (Err (''path cannot be '' @ [CHR 0x22, CHR 0x22]))
      else validateLoop cs)"

definition validateConditions :: "Gag \<Rightarrow> error option" where
  "validateConditions g = validateLoop (conditions g)"

text \<open>\<^verbatim>\<open>configureHandler\<close> (lines 104--113): the log lines and the router.\<close>

definition configureHandler :: "env \<Rightarrow> Gag \<Rightarrow> Gag \<times> action list" where
  "configureHandler e g =
     (g\<lparr>mux := Some (gateway e (conditions g))\<rparr>,
      Println (''total conditions found: '' @ decimal (length (conditions g)))
        # map (\<lambda>c. Println (''path '' @ path c @ '' registered'')) (conditions g))"

text \<open>\<^verbatim>\<open>serve\<close> and \<^verbatim>\<open>newServer\<close> (lines 51--64).\<close>

definition serve :: "sys \<Rightarrow> Gag \<Rightarrow> outcome \<times> action list" where
  "serve s g =
     (case httpServe s of
        None \<Rightarrow> (Serving, [HttpServe])
      | Some None \<Rightarrow> (Returned None, [HttpServe])
      | Some (Some err) \<Rightarrow>
          (Returned (Some err),
           [HttpServe, Printf (''err in http.Serve(): '' @ Error err @ [CHR 0x0A])]))"

definition newServer :: "sys \<Rightarrow> Gag \<Rightarrow> outcome \<times> action list" where
  "newServer s g = serve s g"

text \<open>\<^verbatim>\<open>listenHTTP\<close> (lines 30--49).\<close>

definition listenHTTP :: "sys \<Rightarrow> env \<Rightarrow> 16 word \<Rightarrow> Gag \<Rightarrow> outcome \<times> Gag \<times> action list" where
  "listenHTTP s e p g =
     (let address = '':'' @ decimal (unat p) in
      case netListen s address of
        Inl err \<Rightarrow> (Returned (Some err), g, [NetListen address])
      | Inr a \<Rightarrow>
          (case a of
             OtherAddr \<Rightarrow>
               (Returned (Some (Err ''failed to obtain tcp address'')), g, [NetListen address])
           | TCPAddr tcpPort \<Rightarrow>
               let g1 = g\<lparr>l := Some a, port := word_of_int tcpPort\<rparr>;
                   (g2, lines) = configureHandler e g1;
                   started = Println (''gag started on port '' @ decimal (unat (port g2)));
                   (res, acts) = newServer s g2
               in (res, g2, [NetListen address] @ lines @ [started] @ acts)))"

text \<open>\<^verbatim>\<open>Serve\<close> (lines 67--75).\<close>

definition Serve :: "sys \<Rightarrow> env \<Rightarrow> Gag \<Rightarrow> outcome \<times> Gag \<times> action list" where
  "Serve s e g =
     (case validateConditions g of
        Some err \<Rightarrow> (Returned (Some err), g, [])
      | None \<Rightarrow> listenHTTP s e (port g) g)"

section \<open>Sample handler, conditions and environments of the tests and the README\<close>

text \<open>\<^verbatim>\<open>sampleHandler\<close> of the tests: \<^verbatim>\<open>json.Marshal\<close> of the sample response does not
  fail, so the handler adds the content type, sends status 200 and writes the JSON
  text.\<close>

definition sampleBody :: string where
  "sampleBody = ''{'' @ [CHR 0x22] @ ''message'' @ [CHR 0x22] @ '':'' @ [CHR 0x22]
     @ ''sample handler!'' @ [CHR 0x22] @ ''}''"

definition sampleHandler :: handler where
  "sampleHandler r w =
     Inr (Write sampleBody (WriteHeader 200 (Add ''Content-Type'' ''application/json'' w)))"

text \<open>A middleware of the shape of \<^verbatim>\<open>sampleTimingMiddleware\<close>: a step before the call of
  \<^verbatim>\<open>h.ServeHTTP\<close> and a step after it, each leaving its line in the trace; a panic of
  \<open>h\<close> skips the step after.\<close>

definition around :: "string \<Rightarrow> Middleware" where
  "around name h r w =
     (case h r (emit (Log (name @ '' before'')) w) of
        Inl p \<Rightarrow> Inl p
      | Inr w' \<Rightarrow> Inr (emit (Log (name @ '' after'')) w'))"

text \<open>\<^verbatim>\<open>&Condition{}\<close>, and the five conditions that \<^verbatim>\<open>TestMain\<close> registers.\<close>

definition emptyCondition :: Condition where
  "emptyCondition =
     \<lparr>httpMethod = [], routeRequest = None, header = [], headerValue = None, path = [],
      handlerFunc = None, middlewares = \<lparr>middlewareChain.middlewares = []\<rparr>\<rparr>"

definition condA :: Condition where
  "condA = emptyCondition\<lparr>path := ''/a'', httpMethod := ''GET'',
     handlerFunc := Some sampleHandler\<rparr>"

definition condB :: Condition where
  "condB = emptyCondition\<lparr>path := ''/b'', httpMethod := ''POST'',
     handlerFunc := Some sampleHandler\<rparr>"

definition condC :: Condition where
  "condC = emptyCondition\<lparr>path := ''/c'', httpMethod := ''GET'', header := ''X-Key'',
     handlerFunc := Some sampleHandler\<rparr>"

definition condD :: Condition where
  "condD = emptyCondition\<lparr>path := ''/d'', httpMethod := ''GET'',
     headerValue := Some \<lparr>Key = ''X-Key'', Value = ''someValue''\<rparr>,
     handlerFunc := Some sampleHandler\<rparr>"

definition condE :: Condition where
  "condE = emptyCondition\<lparr>path := ''/e'', httpMethod := ''GET'', header := ''X-Key'',
     headerValue := Some \<lparr>Key = ''X-Key-Two'', Value = ''someValue''\<rparr>,
     handlerFunc := Some sampleHandler\<rparr>"

definition testConditions :: "Condition list" where
  "testConditions = [condA, condB, condC, condD, condE]"

text \<open>A request with the method and path given, no header and no body, as
  \<^verbatim>\<open>http.NewRequest(method, url, nil)\<close> of the tests sends it.\<close>

definition bare :: "string \<Rightarrow> string \<Rightarrow> request" where
  "bare m p = \<lparr>Method = m, URLPath = p, Header = Map.empty, Body = []\<rparr>"

text \<open>\<^verbatim>\<open>path.Clean\<close> on a rooted path, the only kind \<^verbatim>\<open>cleanPath\<close> passes to it: the
  path is cut at its slashes, empty elements and \<^verbatim>\<open>.\<close> are dropped, \<^verbatim>\<open>..\<close> drops the
  element kept last (none at the root), and the elements kept are joined again.\<close>

fun splitSlash :: "string \<Rightarrow> string list" where
  "splitSlash [] = [[]]"
| "splitSlash (ch # s) =
     (if ch = CHR ''/'' then [] # splitSlash s
      else (case splitSlash s of [] \<Rightarrow> [[ch]] | x # xs \<Rightarrow> (ch # x) # xs))"

fun resolveDots :: "string list \<Rightarrow> string list \<Rightarrow> string list" where
  "resolveDots kept [] = rev kept"
| "resolveDots kept (x # xs) =
     (if x = [] \<or> x = ''.'' then resolveDots kept xs
      else if x = ''..'' then resolveDots (tl kept) xs
      else resolveDots (x # kept) xs)"

fun joinSlash :: "string list \<Rightarrow> string" where
  "joinSlash [] = []"
| "joinSlash (x # xs) = ''/'' @ x @ joinSlash xs"

definition rootedClean :: "string \<Rightarrow> string" where
  "rootedClean p =
     (case resolveDots [] (splitSlash p) of [] \<Rightarrow> ''/'' | x # xs \<Rightarrow> joinSlash (x # xs))"

text \<open>An environment for the tests: literal route templates, which match the equal
  path; requests without a query whose paths need no escaping, so that the URL's text
  is its path; the not-found reply of net/http; every outbound request accepted; a
  backend that answers 201 with a JSON body and a header of its own, at the first
  request.\<close>

definition notFound :: handler where
  "notFound r w =
     Inr (Write (''404 page not found'' @ [CHR 0x0A])
            (WriteHeader 404
               (Set ''X-Content-Type-Options'' ''nosniff''
                  (Set ''Content-Type'' ''text/plain; charset=utf-8'' w))))"

definition okBody :: string where
  "okBody = ''{'' @ [CHR 0x22] @ ''ok'' @ [CHR 0x22] @ '':true}''"

definition backend201 :: "int \<Rightarrow> outreq \<Rightarrow> error + response" where
  "backend201 t req =
     Inr \<lparr>StatusCode = 201, respHeader = [''X-Backend'' \<mapsto> [''b1'']], respBody = Inr okBody\<rparr>"

definition testEnv :: env where
  "testEnv =
     \<lparr>requestError = (\<lambda>m u. None), clientDo = backend201,
      roundTrips = (\<lambda>t req. [req]),
      pathMatches = (\<lambda>template p. template = p),
      pathClean = rootedClean, urlString = (\<lambda>r p. p),
      NotFoundHandler = notFound, NewServeMux = notFound\<rparr>"

text \<open>The routes of the README: the proxied \<^verbatim>\<open>/demo\<close> route that passes the body on
  with a timeout of two seconds, and a plain GET route; a condition with nothing but a
  path and a proxy target.\<close>

definition demoRoute :: RouteRequest where
  "demoRoute = \<lparr>Url = ''http://127.0.0.1:8081/demo'', HttpMethod = ''POST'',
     Timeout = 2000000000, PassRequestBody = True\<rparr>"

definition getRoute :: RouteRequest where
  "getRoute = \<lparr>Url = ''http://some.url/route-to'', HttpMethod = ''GET'',
     Timeout = 0, PassRequestBody = False\<rparr>"

definition routeTo :: "RouteRequest \<Rightarrow> Condition" where
  "routeTo rr = emptyCondition\<lparr>path := ''/demo'', routeRequest := Some rr\<rparr>"

text \<open>Four more environments: a backend that cannot be reached, a backend whose body
  breaks off while it is read, a method that \<^verbatim>\<open>http.NewRequestWithContext\<close> rejects,
  and a backend that answers the first request with a redirect to another of its URLs,
  where the connection is refused: the client follows the redirect inside the one call
  of \<^verbatim>\<open>client.Do\<close>, and the call fails.\<close>

definition redirected :: env where
  "redirected = testEnv
     \<lparr>clientDo := (\<lambda>t req. Inl (Err ''connection refused'')),
      roundTrips := (\<lambda>t req. [req, req\<lparr>oUrl := ''http://some.url/moved''\<rparr>])\<rparr>"

definition unreachable :: env where
  "unreachable = testEnv\<lparr>clientDo := (\<lambda>t req. Inl (Err ''connection refused''))\<rparr>"

definition truncated :: env where
  "truncated = testEnv\<lparr>clientDo := (\<lambda>t req.
     Inr \<lparr>StatusCode = 200, respHeader = Map.empty, respBody = Inl (Err ''unexpected EOF'')\<rparr>)\<rparr>"

definition rejecting :: env where
  "rejecting = testEnv\<lparr>requestError := (\<lambda>m u. Some (Err ''invalid method''))\<rparr>"

text \<open>The request of \<^verbatim>\<open>TestCorrectHeaderHandlingSuccess\<close>: a GET that carries
  \<^verbatim>\<open>X-Key: someValue\<close>, stored by the server under the canonical name.\<close>

definition keyed :: "string \<Rightarrow> request" where
  "keyed p = \<lparr>Method = ''GET'', URLPath = p, Header = [''X-Key'' \<mapsto> [''someValue'']],
     Body = []\<rparr>"

text \<open>Two conditions the registry can hold: one with no action (\<^verbatim>\<open>Route(nil, g)\<close>), one
  with both actions (\<^verbatim>\<open>HandlerFunc\<close> and \<^verbatim>\<open>Route\<close> called on the same condition).\<close>

definition neither :: Condition where
  "neither = emptyCondition\<lparr>path := ''/x''\<rparr>"

definition both :: Condition where
  "both = emptyCondition\<lparr>path := ''/y'', handlerFunc := Some sampleHandler,
     routeRequest := Some getRoute\<rparr>"

text \<open>A system on which port 8080 is free and the accept loop runs on.\<close>

definition sys8080 :: sys where
  "sys8080 = \<lparr>netListen = (\<lambda>a. Inr (TCPAddr 8080)), httpServe = None\<rparr>"

section \<open>Notions used in the statements\<close>

text \<open>The three mismatch reasons of the matcher, in the words of the specification:
  the method is set and differs from the request's; the required header is set and
  absent from the request; the required header value is set and the named header is
  absent or none of its values equals the expected one.\<close>

definition methodMismatch :: "Condition \<Rightarrow> request \<Rightarrow> bool" where
  "methodMismatch c r = (httpMethod c \<noteq> [] \<and> httpMethod c \<noteq> Method r)"

definition headerMissing :: "Condition \<Rightarrow> request \<Rightarrow> bool" where
  "headerMissing c r = (header c \<noteq> [] \<and> Header r (header c) = None)"

definition headerValueMismatch :: "Condition \<Rightarrow> request \<Rightarrow> bool" where
  "headerValueMismatch c r =
     (case headerValue c of
        None \<Rightarrow> False
      | Some hv \<Rightarrow>
          (case Header r (Key hv) of
             None \<Rightarrow> True
           | Some vs \<Rightarrow> Value hv \<notin> set vs))"

definition Matched :: "Condition \<Rightarrow> request \<Rightarrow> bool" where
  "Matched c r =
     (\<not> methodMismatch c r \<and> \<not> headerMissing c r \<and> \<not> headerValueMismatch c r)"

text \<open>The outbound request of a proxy target for an inbound request, in the words of the
  specification: the target's method and URL; with \<^verbatim>\<open>passRequestBody\<close> the inbound body
  and the JSON content type, without it no body.\<close>

definition outboundRequest :: "RouteRequest \<Rightarrow> request \<Rightarrow> outreq" where
  "outboundRequest rr r =
     (if PassRequestBody rr then
        \<lparr>oMethod = (if HttpMethod rr = [] then ''GET'' else HttpMethod rr), oUrl = Url rr,
         oBody = Some (Body r), oHeader = [''Content-Type'' \<mapsto> [''application/json'']]\<rparr>
      else
        \<lparr>oMethod = (if HttpMethod rr = [] then ''GET'' else HttpMethod rr), oUrl = Url rr,
         oBody = None, oHeader = Map.empty\<rparr>)"

text \<open>The outbound requests handed to \<^verbatim>\<open>client.Do\<close> in a trace, oldest first: one for
  each attempt on the backend.\<close>

fun sent :: "event list \<Rightarrow> outreq list" where
  "sent [] = []"
| "sent (ClientDo t req # es) = req # sent es"
| "sent (e # es) = sent es"

text \<open>The deferred \<^verbatim>\<open>r.Body.Close()\<close>, which only the branch that passes the body on
  registers.\<close>

definition closing :: "RouteRequest \<Rightarrow> exchange \<Rightarrow> exchange" where
  "closing rr w = (if PassRequestBody rr then emit CloseRequestBody w else w)"

text \<open>The requests that reached the backend in a trace: for each call of \<^verbatim>\<open>client.Do\<close>
  the requests the client sent during that call.\<close>

fun attempts :: "env \<Rightarrow> event list \<Rightarrow> outreq list" where
  "attempts e [] = []"
| "attempts e (ClientDo t req # es) = roundTrips e t req @ attempts e es"
| "attempts e (ev # es) = attempts e es"

section \<open>Header names as the server stores them (net/textproto)\<close>


















section \<open>Facts about the model\<close>

lemma hasHeaderValue_set: "hasHeaderValue v vs \<longleftrightarrow> v \<in> set vs"
  by (induction vs) auto

lemma dispatch_Matched: "dispatch c h r w = (if Matched c r then h r w else Inr w)"
  by (auto simp: dispatch_def Matched_def methodMismatch_def headerMissing_def
      headerValueMismatch_def has_key_def index_def hasHeaderValue_set
      split: option.splits)


lemma wrap_loop_Suc: "wrap_loop (Suc i) ms hf h = foldl (\<lambda>h m. m h) h ms"
  by (induction ms arbitrary: i h) simp_all

lemma wrap_Cons:
  "wrap e \<lparr>middlewareChain.middlewares = m # ms\<rparr> hf h = foldl (\<lambda>h m. m h) (m hf) ms"
  by (simp add: wrap_def wrap_loop_Suc)

lemma built_foldl:
  "built e c = foldl (\<lambda>h m. m h) (terminal e c) (middlewareChain.middlewares (middlewares c))"
proof (cases "middlewareChain.middlewares (middlewares c)")
  case Nil
  then show ?thesis by (simp add: built_def terminal_def)
next
  case (Cons m ms)
  then show ?thesis
    by (simp add: built_def terminal_def wrap_def wrap_loop_Suc split: option.splits)
qed

lemma sent_append: "sent (xs @ ys) = sent xs @ sent ys"
  by (induction xs rule: sent.induct) simp_all

lemma emit_fields [simp]:
  "wHeader (emit ev w) = wHeader w" "wStatus (emit ev w) = wStatus w"
  "wBody (emit ev w) = wBody w" "events (emit ev w) = events w @ [ev]"
  by (simp_all add: emit_def)

lemma closing_fields [simp]:
  "wHeader (closing rr w) = wHeader w" "wStatus (closing rr w) = wStatus w"
  "wBody (closing rr w) = wBody w"
  "sent (events (closing rr w)) = sent (events w)"
  by (simp_all add: closing_def sent_append)

lemma internalServerError_fields:
  assumes "wStatus w = None"
  shows "wStatus (internalServerError err w) = Some (500, wHeader w)"
    and "wBody (internalServerError err w) = wBody w @ Error err"
    and "wHeader (internalServerError err w) = wHeader w"
  using assms by (simp_all add: internalServerError_def Write_def WriteHeader_def)

lemma internalServerError_events [simp]:
  "events (internalServerError err w) = events w"
  by (simp add: internalServerError_def Write_def WriteHeader_def Let_def split: option.splits)

lemma relay_fields:
  assumes "wStatus w = None"
  shows "wStatus (Write b (WriteHeader code (Set k v w))) = Some (code, (wHeader w)(k \<mapsto> [v]))"
    and "wBody (Write b (WriteHeader code (Set k v w))) = wBody w @ b"
    and "wHeader (Write b (WriteHeader code (Set k v w))) = (wHeader w)(k \<mapsto> [v])"
  using assms by (simp_all add: Write_def WriteHeader_def Set_def)

lemma relay_events [simp]:
  "events (Write b (WriteHeader code (Set k v w))) = events w"
  by (simp add: Write_def WriteHeader_def Set_def Let_def split: option.splits)

text \<open>The four ways through the proxy closure, one lemma each.\<close>

lemma proxy_new_request_fails:
  assumes "routeRequest c = Some rr" and "requestError e (HttpMethod rr) (Url rr) = Some err"
  shows "proxy e c r w = Inr (closing rr (internalServerError err w))"
  using assms
  by (cases "PassRequestBody rr") (simp_all add: proxy_def NewRequestWithContext_def closing_def)

lemma proxy_do_fails:
  assumes "routeRequest c = Some rr" and "requestError e (HttpMethod rr) (Url rr) = None"
    and "clientDo e (Timeout rr) (outboundRequest rr r) = Inl err"
  shows "proxy e c r w =
    Inr (closing rr (internalServerError err
           (emit (ClientDo (Timeout rr) (outboundRequest rr r)) w)))"
  using assms
  by (cases "PassRequestBody rr")
    (simp_all add: proxy_def NewRequestWithContext_def closing_def outboundRequest_def Let_def)

lemma proxy_read_fails:
  assumes "routeRequest c = Some rr" and "requestError e (HttpMethod rr) (Url rr) = None"
    and "clientDo e (Timeout rr) (outboundRequest rr r) = Inr resp"
    and "respBody resp = Inl err"
  shows "proxy e c r w =
    Inr (closing rr (emit CloseResponseBody (internalServerError err
           (emit (ClientDo (Timeout rr) (outboundRequest rr r)) w))))"
  using assms
  by (cases "PassRequestBody rr")
    (simp_all add: proxy_def NewRequestWithContext_def closing_def outboundRequest_def Let_def)

lemma proxy_relays:
  assumes "routeRequest c = Some rr" and "requestError e (HttpMethod rr) (Url rr) = None"
    and "clientDo e (Timeout rr) (outboundRequest rr r) = Inr resp"
    and "respBody resp = Inr bodyBytes"
  shows "proxy e c r w =
    Inr (closing rr (emit CloseResponseBody
           (Write bodyBytes (WriteHeader (StatusCode resp)
              (Set ''Content-Type'' ''application/json''
                 (emit (ClientDo (Timeout rr) (outboundRequest rr r)) w))))))"
  using assms
  by (cases "PassRequestBody rr")
    (simp_all add: proxy_def NewRequestWithContext_def closing_def outboundRequest_def Let_def)

lemma proxy_attempts:
  assumes "routeRequest c = Some rr"
  shows "\<exists>w'. proxy e c r w = Inr w'
     \<and> length (sent (events w')) \<le> Suc (length (sent (events w)))"
proof (cases "requestError e (HttpMethod rr) (Url rr)")
  case (Some err)
  with assms show ?thesis by (simp add: proxy_new_request_fails)
next
  case None
  show ?thesis
  proof (cases "clientDo e (Timeout rr) (outboundRequest rr r)")
    case (Inl err)
    with assms None show ?thesis by (simp add: proxy_do_fails sent_append)
  next
    case (Inr resp)
    show ?thesis
    proof (cases "respBody resp")
      case (Inl err)
      with assms None Inr show ?thesis by (simp add: proxy_read_fails sent_append)
    next
      case (Inr bodyBytes)
      with assms None \<open>clientDo e (Timeout rr) (outboundRequest rr r) = Inr resp\<close>
      show ?thesis by (simp add: proxy_relays sent_append)
    qed
  qed
qed

lemma terminal_proxy: "handlerFunc c = None \<Longrightarrow> terminal e c = proxy e c"
  by (simp add: terminal_def)

lemma Router_clean:
  assumes "cleanPath e (URLPath r) = URLPath r"
  shows "Router e routes r w =
    (case Match e routes r of Some h \<Rightarrow> h r w | None \<Rightarrow> NotFoundHandler e r w)"
  using assms by (simp add: Router_def)

lemma matched_served:
  assumes "cleanPath e (URLPath r) = URLPath r"
    and "pathMatches e (path c) (URLPath r)" and "Matched c r"
  shows "configureMuxHandlers e c r w = built e c r w"
  using assms by (simp add: configureMuxHandlers_def Router_clean dispatch_Matched)

lemma rootedClean_tests:
  "rootedClean ''/a'' = ''/a''" "rootedClean ''/b'' = ''/b''" "rootedClean ''/c'' = ''/c''"
  "rootedClean ''/d'' = ''/d''" "rootedClean ''/e'' = ''/e''" "rootedClean ''//b'' = ''/b''"
  by (simp_all add: rootedClean_def)

lemma unclean_path_redirected:
  "gateway testEnv testConditions (bare ''GET'' ''//b'') fresh =
     Inr (fresh\<lparr>wHeader := [''Location'' \<mapsto> [''/b'']],
                wStatus := Some (301, [''Location'' \<mapsto> [''/b'']])\<rparr>)"
  by (simp add: gateway_def Router_def cleanPath_def rootedClean_tests testEnv_def bare_def
      fresh_def WriteHeader_def Set_def Let_def)

lemma attempts_append: "attempts e (xs @ ys) = attempts e xs @ attempts e ys"
  by (induction e xs rule: attempts.induct) simp_all

lemma closing_attempts [simp]: "attempts e (events (closing rr w)) = attempts e (events w)"
  by (simp add: closing_def attempts_append)





























lemma validateLoop_None: "validateLoop cs = None \<longleftrightarrow> (\<forall>c \<in> set cs. path c \<noteq> [])"
  by (induction cs) simp_all

lemma validateLoop_Some:
  "validateLoop cs = Some err \<Longrightarrow> err = Err (''path cannot be '' @ [CHR 0x22, CHR 0x22])"
  by (induction cs) (simp_all split: if_splits)

lemma decimal_8080: "decimal 8080 = ''8080''"
  by (simp add: decimal.simps digit_def)

section \<open>The claims\<close>

text \<open>
  \<^bold>\<open>C1.\<close> The specification and the tests (\<^verbatim>\<open>TestWrongHttpMethodResponse405\<close>) expect
  status 405 with the body \<^verbatim>\<open>405 method(GET) not allowed\<close> for a GET on \<^verbatim>\<open>/b\<close>, which is
  registered for POST. The gateway built from the conditions of \<^verbatim>\<open>TestMain\<close> returns from
  that request with the response untouched: no status, no header, no body.
\<close>

theorem wrong_method_leaves_response_unwritten:
  "gateway testEnv testConditions (bare ''GET'' ''/b'') fresh = Inr fresh
   \<and> wStatus fresh = None \<and> wHeader fresh = Map.empty \<and> wBody fresh = []"
  by (simp add: gateway_def testConditions_def configureMuxHandlers_def Router_def cleanPath_def
      rootedClean_tests dispatch_def condA_def condB_def emptyCondition_def testEnv_def
      bare_def fresh_def)

text \<open>
  \<^bold>\<open>C2.\<close> The specification and the tests (\<^verbatim>\<open>TestWrongHeaderResponse400\<close>) expect status
  400 with the body \<^verbatim>\<open>400 header(X-Key) not provided\<close> for a GET on \<^verbatim>\<open>/c\<close> without the
  header \<^verbatim>\<open>X-Key\<close>. The gateway returns from that request with the response untouched.
  The second half of the claim holds: with the header present the handler built for the
  condition serves the request (lemma \<open>header_present_served\<close>).
\<close>

theorem missing_header_leaves_response_unwritten:
  "gateway testEnv testConditions (bare ''GET'' ''/c'') fresh = Inr fresh
   \<and> wStatus fresh = None \<and> wHeader fresh = Map.empty \<and> wBody fresh = []"
  by (simp add: gateway_def testConditions_def configureMuxHandlers_def Router_def cleanPath_def
      rootedClean_tests dispatch_def condA_def condB_def condC_def emptyCondition_def
      testEnv_def bare_def fresh_def has_key_def)

text \<open>
  \<^bold>\<open>C3.\<close> For a request whose path matches the condition and for which the method check,
  the header-presence check or the header-value check fails, the closure installed for
  the condition returns with the exchange exactly as it was: no status code, no header,
  no body, no effect; and so does the router around it, which hands a clean path to the
  closure.
\<close>

theorem mismatch_writes_nothing:
  assumes "pathMatches e (path c) (URLPath r)"
    and "methodMismatch c r \<or> headerMissing c r \<or> headerValueMismatch c r"
  shows "dispatch c (built e c) r w = Inr w
    \<and> (cleanPath e (URLPath r) = URLPath r \<longrightarrow> configureMuxHandlers e c r w = Inr w)"
  using assms by (auto simp: configureMuxHandlers_def Router_clean dispatch_Matched Matched_def)

theorem mismatch_writes_nothing_witness:
  "pathMatches testEnv (path condE) (URLPath (bare ''POST'' ''/e''))
   \<and> methodMismatch condE (bare ''POST'' ''/e'')
   \<and> headerMissing condE (bare ''POST'' ''/e'')
   \<and> headerValueMismatch condE (bare ''POST'' ''/e'')
   \<and> cleanPath testEnv (URLPath (bare ''POST'' ''/e'')) = URLPath (bare ''POST'' ''/e'')
   \<and> dispatch condE (built testEnv condE) (bare ''POST'' ''/e'') fresh = Inr fresh
   \<and> configureMuxHandlers testEnv condE (bare ''POST'' ''/e'') fresh = Inr fresh"
proof -
  have p: "pathMatches testEnv (path condE) (URLPath (bare ''POST'' ''/e''))"
    by (simp add: testEnv_def condE_def bare_def)
  have m: "methodMismatch condE (bare ''POST'' ''/e'')"
    by (simp add: methodMismatch_def condE_def emptyCondition_def bare_def)
  have hm: "headerMissing condE (bare ''POST'' ''/e'')"
    by (simp add: headerMissing_def condE_def emptyCondition_def bare_def)
  have hv: "headerValueMismatch condE (bare ''POST'' ''/e'')"
    by (simp add: headerValueMismatch_def condE_def emptyCondition_def bare_def)
  have cl: "cleanPath testEnv (URLPath (bare ''POST'' ''/e'')) = URLPath (bare ''POST'' ''/e'')"
    by (simp add: cleanPath_def testEnv_def bare_def rootedClean_tests)
  from mismatch_writes_nothing [OF p, of fresh] m hm hv p cl show ?thesis by simp
qed

text \<open>
  \<^bold>\<open>C4.\<close> The handler built for a condition is its terminal handler wrapped by the
  middlewares folded from left to right, for chains of every length; after
  \<^verbatim>\<open>Middlewares(A, B)\<close> and with the terminal handler \<open>H\<close> it is \<open>B (A H)\<close>; and a
  request then
  observes the step before of \<open>B\<close>, the step before of \<open>A\<close>, \<open>H\<close>, the step after of
  \<open>A\<close>, the step after of \<open>B\<close>.
\<close>

theorem middleware_order:
  "built e c = foldl (\<lambda>h m. m h) (terminal e c) (middlewareChain.middlewares (middlewares c))
   \<and> built e (Middlewares [A, B] (c\<lparr>handlerFunc := Some H\<rparr>)) = B (A H)
   \<and> built e (Middlewares [around ''A'', around ''B'']
                (c\<lparr>handlerFunc := Some (\<lambda>r w. Inr (emit (Log ''H'') w))\<rparr>)) r w
       = Inr (w\<lparr>events := events w @
                [Log ''B before'', Log ''A before'', Log ''H'', Log ''A after'', Log ''B after'']\<rparr>)"
  by (simp add: built_foldl terminal_def Middlewares_def around_def emit_def)

text \<open>
  \<^bold>\<open>C5.\<close> For a condition whose action is a proxy target (no local handler, a
  \<^verbatim>\<open>routeRequest\<close>): when the outbound request is built, the backend answers and its
  body is read to the end, the terminal handler, on a response not yet written to, sends
  the backend's status code with the header \<^verbatim>\<open>Content-Type: application/json\<close> added
  to the headers the response already had, and appends the backend's body unchanged; no
  header of the backend's response is copied.
\<close>

theorem proxy_success_relays:
  assumes "handlerFunc c = None" and "routeRequest c = Some rr"
    and "requestError e (HttpMethod rr) (Url rr) = None"
    and "clientDo e (Timeout rr) (outboundRequest rr r) = Inr resp"
    and "respBody resp = Inr bodyBytes"
    and "wStatus w = None"
  shows "\<exists>w'. terminal e c r w = Inr w'
     \<and> wStatus w' = Some (StatusCode resp, (wHeader w)(''Content-Type'' \<mapsto> [''application/json'']))
     \<and> wHeader w' = (wHeader w)(''Content-Type'' \<mapsto> [''application/json''])
     \<and> wBody w' = wBody w @ bodyBytes"
  using assms by (simp add: terminal_proxy proxy_relays relay_fields)

theorem proxy_success_relays_witness:
  "handlerFunc (routeTo getRoute) = None \<and> routeRequest (routeTo getRoute) = Some getRoute
   \<and> requestError testEnv (HttpMethod getRoute) (Url getRoute) = None
   \<and> clientDo testEnv (Timeout getRoute) (outboundRequest getRoute (bare ''GET'' ''/demo''))
       = Inr \<lparr>StatusCode = 201, respHeader = [''X-Backend'' \<mapsto> [''b1'']], respBody = Inr okBody\<rparr>
   \<and> wStatus fresh = None
   \<and> (\<exists>w'. terminal testEnv (routeTo getRoute) (bare ''GET'' ''/demo'') fresh = Inr w'
        \<and> wStatus w' = Some (201, [''Content-Type'' \<mapsto> [''application/json'']])
        \<and> wHeader w' = [''Content-Type'' \<mapsto> [''application/json'']]
        \<and> wBody w' = okBody)"
proof -
  have 1: "routeRequest (routeTo getRoute) = Some getRoute"
    by (simp add: routeTo_def emptyCondition_def)
  have 2: "requestError testEnv (HttpMethod getRoute) (Url getRoute) = None"
    by (simp add: testEnv_def)
  have 3: "clientDo testEnv (Timeout getRoute) (outboundRequest getRoute (bare ''GET'' ''/demo''))
       = Inr \<lparr>StatusCode = 201, respHeader = [''X-Backend'' \<mapsto> [''b1'']], respBody = Inr okBody\<rparr>"
    by (simp add: testEnv_def backend201_def)
  have 4: "respBody \<lparr>StatusCode = 201, respHeader = [''X-Backend'' \<mapsto> [''b1'']], respBody = Inr okBody\<rparr>
       = Inr okBody"
    by simp
  have 5: "wStatus fresh = None" by (simp add: fresh_def)
  have 0: "handlerFunc (routeTo getRoute) = None"
    by (simp add: routeTo_def emptyCondition_def)
  from proxy_success_relays [OF 0 1 2 3 4 5] 0 1 2 3 5 show ?thesis
    by (simp add: fresh_def)
qed

text \<open>
  \<^bold>\<open>C6.\<close> As stated the claim fails in its last part: the handler calls \<^verbatim>\<open>client.Do\<close>
  once, but the client of net/http follows redirects and its transport repeats requests
  inside that one call. With a backend that redirects the first request to a URL where
  the connection is refused, the caller gets status 500 with the error's text, and the
  backend was attempted twice.
\<close>

theorem backend_attempted_twice_counterexample:
  "handlerFunc (routeTo getRoute) = None \<and> routeRequest (routeTo getRoute) = Some getRoute
   \<and> clientDo redirected (Timeout getRoute) (outboundRequest getRoute (bare ''GET'' ''/demo''))
       = Inl (Err ''connection refused'')
   \<and> terminal redirected (routeTo getRoute) (bare ''GET'' ''/demo'') fresh
       = Inr (fresh\<lparr>wStatus := Some (500, Map.empty), wBody := ''connection refused'',
                events := [ClientDo 0 (outboundRequest getRoute (bare ''GET'' ''/demo''))]\<rparr>)
   \<and> attempts redirected [ClientDo 0 (outboundRequest getRoute (bare ''GET'' ''/demo''))]
       = [outboundRequest getRoute (bare ''GET'' ''/demo''),
          (outboundRequest getRoute (bare ''GET'' ''/demo''))\<lparr>oUrl := ''http://some.url/moved''\<rparr>]"
  by (simp add: routeTo_def emptyCondition_def terminal_def proxy_def NewRequestWithContext_def
      getRoute_def redirected_def testEnv_def outboundRequest_def bare_def fresh_def
      internalServerError_def Write_def WriteHeader_def emit_def)

text \<open>
  \<^bold>\<open>C6, amended.\<close> For a condition whose action is a proxy target, on a response not yet
  written to: when the outbound request cannot be built, the terminal handler sends
  status 500 with the error's text as the body, without a call of \<^verbatim>\<open>client.Do\<close> and
  without a request to the backend; when the outbound call fails, or the read of the
  backend's body fails, it sends status 500 with the error's text after one call of
  \<^verbatim>\<open>client.Do\<close>, and the backend has received the requests that the client sent
  during that one call; and whatever happens the handler returns after at most one call
  of \<^verbatim>\<open>client.Do\<close>: it has no retry of its own.
\<close>

theorem proxy_failure_500:
  assumes "handlerFunc c = None" and "routeRequest c = Some rr" and "wStatus w = None"
  shows "(requestError e (HttpMethod rr) (Url rr) = Some err \<longrightarrow>
            (\<exists>w'. terminal e c r w = Inr w' \<and> wStatus w' = Some (500, wHeader w)
               \<and> wBody w' = wBody w @ Error err \<and> sent (events w') = sent (events w)
               \<and> attempts e (events w') = attempts e (events w)))
       \<and> (requestError e (HttpMethod rr) (Url rr) = None
            \<and> clientDo e (Timeout rr) (outboundRequest rr r) = Inl err \<longrightarrow>
            (\<exists>w'. terminal e c r w = Inr w' \<and> wStatus w' = Some (500, wHeader w)
               \<and> wBody w' = wBody w @ Error err
               \<and> sent (events w') = sent (events w) @ [outboundRequest rr r]
               \<and> attempts e (events w')
                   = attempts e (events w) @ roundTrips e (Timeout rr) (outboundRequest rr r)))
       \<and> (requestError e (HttpMethod rr) (Url rr) = None
            \<and> clientDo e (Timeout rr) (outboundRequest rr r) = Inr resp
            \<and> respBody resp = Inl err \<longrightarrow>
            (\<exists>w'. terminal e c r w = Inr w' \<and> wStatus w' = Some (500, wHeader w)
               \<and> wBody w' = wBody w @ Error err
               \<and> sent (events w') = sent (events w) @ [outboundRequest rr r]
               \<and> attempts e (events w')
                   = attempts e (events w) @ roundTrips e (Timeout rr) (outboundRequest rr r)))
       \<and> (\<exists>w'. terminal e c r w = Inr w'
            \<and> length (sent (events w')) \<le> Suc (length (sent (events w))))"
  using assms proxy_attempts [OF assms(2), of e r w]
  by (simp add: terminal_proxy proxy_new_request_fails proxy_do_fails proxy_read_fails
      internalServerError_fields sent_append attempts_append)

theorem proxy_failure_500_witness:
  "handlerFunc (routeTo demoRoute) = None
   \<and> routeRequest (routeTo demoRoute) = Some demoRoute \<and> wStatus fresh = None
   \<and> requestError rejecting (HttpMethod demoRoute) (Url demoRoute) = Some (Err ''invalid method'')
   \<and> (\<exists>w'. terminal rejecting (routeTo demoRoute) (bare ''POST'' ''/demo'') fresh = Inr w'
        \<and> wStatus w' = Some (500, Map.empty) \<and> wBody w' = ''invalid method''
        \<and> sent (events w') = [] \<and> attempts rejecting (events w') = [])
   \<and> requestError unreachable (HttpMethod demoRoute) (Url demoRoute) = None
   \<and> clientDo unreachable (Timeout demoRoute) (outboundRequest demoRoute (bare ''POST'' ''/demo''))
       = Inl (Err ''connection refused'')
   \<and> (\<exists>w'. terminal unreachable (routeTo demoRoute) (bare ''POST'' ''/demo'') fresh = Inr w'
        \<and> wStatus w' = Some (500, Map.empty) \<and> wBody w' = ''connection refused''
        \<and> sent (events w') = [outboundRequest demoRoute (bare ''POST'' ''/demo'')]
        \<and> attempts unreachable (events w') = [outboundRequest demoRoute (bare ''POST'' ''/demo'')])
   \<and> requestError truncated (HttpMethod demoRoute) (Url demoRoute) = None
   \<and> clientDo truncated (Timeout demoRoute) (outboundRequest demoRoute (bare ''POST'' ''/demo''))
       = Inr \<lparr>StatusCode = 200, respHeader = Map.empty, respBody = Inl (Err ''unexpected EOF'')\<rparr>
   \<and> (\<exists>w'. terminal truncated (routeTo demoRoute) (bare ''POST'' ''/demo'') fresh = Inr w'
        \<and> wStatus w' = Some (500, Map.empty) \<and> wBody w' = ''unexpected EOF''
        \<and> sent (events w') = [outboundRequest demoRoute (bare ''POST'' ''/demo'')]
        \<and> attempts truncated (events w') = [outboundRequest demoRoute (bare ''POST'' ''/demo'')])"
proof -
  let ?r = "bare ''POST'' ''/demo''"
  let ?resp = "\<lparr>StatusCode = 200, respHeader = Map.empty, respBody = Inl (Err ''unexpected EOF'')\<rparr>"
  have 0: "handlerFunc (routeTo demoRoute) = None"
    by (simp add: routeTo_def emptyCondition_def)
  have 1: "routeRequest (routeTo demoRoute) = Some demoRoute"
    by (simp add: routeTo_def emptyCondition_def)
  have 2: "wStatus fresh = None" by (simp add: fresh_def)
  have 3: "requestError rejecting (HttpMethod demoRoute) (Url demoRoute) = Some (Err ''invalid method'')"
    by (simp add: rejecting_def testEnv_def)
  have 4: "requestError unreachable (HttpMethod demoRoute) (Url demoRoute) = None"
    by (simp add: unreachable_def testEnv_def)
  have 5: "clientDo unreachable (Timeout demoRoute) (outboundRequest demoRoute ?r)
       = Inl (Err ''connection refused'')"
    by (simp add: unreachable_def testEnv_def)
  have 6: "requestError truncated (HttpMethod demoRoute) (Url demoRoute) = None"
    by (simp add: truncated_def testEnv_def)
  have 7: "clientDo truncated (Timeout demoRoute) (outboundRequest demoRoute ?r) = Inr ?resp"
    by (simp add: truncated_def testEnv_def)
  have 8: "roundTrips unreachable t req = [req]" "roundTrips truncated t req = [req]" for t req
    by (simp_all add: unreachable_def truncated_def testEnv_def)
  from proxy_failure_500 [OF 0 1 2, of rejecting "Err ''invalid method''" ?r]
    proxy_failure_500 [OF 0 1 2, of unreachable "Err ''connection refused''" ?r]
    proxy_failure_500 [OF 0 1 2, of truncated "Err ''unexpected EOF''" ?r ?resp]
    0 1 2 3 4 5 6 7 8
  show ?thesis by (simp add: fresh_def)
qed

text \<open>
  \<^bold>\<open>C7.\<close> For a condition whose action is a proxy target: when the outbound request
  can be built, the terminal handler hands exactly one request to the client, with the
  target's method and URL; with \<^verbatim>\<open>PassRequestBody\<close> its body is the inbound body and
  its only header is \<^verbatim>\<open>Content-Type: application/json\<close>; without, it has no body
  and no header.
\<close>

theorem proxy_outbound_request:
  assumes "handlerFunc c = None" and "routeRequest c = Some rr"
    and "requestError e (HttpMethod rr) (Url rr) = None"
  shows "\<exists>w' req. terminal e c r w = Inr w' \<and> sent (events w') = sent (events w) @ [req]
     \<and> oMethod req = (if HttpMethod rr = [] then ''GET'' else HttpMethod rr)
     \<and> oUrl req = Url rr
     \<and> (PassRequestBody rr \<longrightarrow>
          oBody req = Some (Body r)
          \<and> oHeader req = [''Content-Type'' \<mapsto> [''application/json'']])
     \<and> (\<not> PassRequestBody rr \<longrightarrow> oBody req = None \<and> oHeader req = Map.empty)"
proof -
  let ?req = "outboundRequest rr r"
  have req: "oMethod ?req = (if HttpMethod rr = [] then ''GET'' else HttpMethod rr)
     \<and> oUrl ?req = Url rr
     \<and> (PassRequestBody rr \<longrightarrow>
          oBody ?req = Some (Body r)
          \<and> oHeader ?req = [''Content-Type'' \<mapsto> [''application/json'']])
     \<and> (\<not> PassRequestBody rr \<longrightarrow> oBody ?req = None \<and> oHeader ?req = Map.empty)"
    by (simp add: outboundRequest_def)
  have "\<exists>w'. proxy e c r w = Inr w' \<and> sent (events w') = sent (events w) @ [?req]"
  proof (cases "clientDo e (Timeout rr) ?req")
    case (Inl err)
    with assms show ?thesis by (simp add: proxy_do_fails sent_append)
  next
    case (Inr resp)
    show ?thesis
    proof (cases "respBody resp")
      case (Inl err)
      with assms Inr show ?thesis by (simp add: proxy_read_fails sent_append)
    next
      case (Inr bodyBytes)
      with assms \<open>clientDo e (Timeout rr) ?req = Inr resp\<close>
      show ?thesis by (simp add: proxy_relays sent_append)
    qed
  qed
  moreover have "terminal e c = proxy e c"
    using assms(1) by (rule terminal_proxy)
  ultimately show ?thesis using req by metis
qed

theorem proxy_outbound_request_witness:
  "handlerFunc (routeTo demoRoute) = None
   \<and> routeRequest (routeTo demoRoute) = Some demoRoute
   \<and> requestError testEnv (HttpMethod demoRoute) (Url demoRoute) = None
   \<and> PassRequestBody demoRoute
   \<and> (\<exists>w' req. terminal testEnv (routeTo demoRoute) ((bare ''POST'' ''/demo'')\<lparr>Body := ''{x:1}''\<rparr>) fresh = Inr w'
        \<and> sent (events w') = [req] \<and> oMethod req = ''POST''
        \<and> oBody req = Some ''{x:1}''
        \<and> oHeader req = [''Content-Type'' \<mapsto> [''application/json'']])
   \<and> handlerFunc (routeTo getRoute) = None
   \<and> routeRequest (routeTo getRoute) = Some getRoute
   \<and> requestError testEnv (HttpMethod getRoute) (Url getRoute) = None
   \<and> \<not> PassRequestBody getRoute
   \<and> (\<exists>w' req. terminal testEnv (routeTo getRoute) ((bare ''GET'' ''/demo'')\<lparr>Body := ''{x:1}''\<rparr>) fresh = Inr w'
        \<and> sent (events w') = [req] \<and> oBody req = None \<and> oHeader req = Map.empty)"
proof -
  have 1: "routeRequest (routeTo demoRoute) = Some demoRoute"
    by (simp add: routeTo_def emptyCondition_def)
  have 2: "requestError testEnv (HttpMethod demoRoute) (Url demoRoute) = None"
    by (simp add: testEnv_def)
  have 3: "routeRequest (routeTo getRoute) = Some getRoute"
    by (simp add: routeTo_def emptyCondition_def)
  have 4: "requestError testEnv (HttpMethod getRoute) (Url getRoute) = None"
    by (simp add: testEnv_def)
  have 5: "PassRequestBody demoRoute" "\<not> PassRequestBody getRoute"
    "HttpMethod demoRoute = ''POST''"
    by (simp_all add: demoRoute_def getRoute_def)
  have 6: "handlerFunc (routeTo demoRoute) = None" "handlerFunc (routeTo getRoute) = None"
    by (simp_all add: routeTo_def emptyCondition_def)
  from proxy_outbound_request [OF 6(1) 1 2, of "(bare ''POST'' ''/demo'')\<lparr>Body := ''{x:1}''\<rparr>" fresh]
    proxy_outbound_request [OF 6(2) 3 4, of "(bare ''GET'' ''/demo'')\<lparr>Body := ''{x:1}''\<rparr>" fresh]
    1 2 3 4 5 6
  show ?thesis by (simp add: fresh_def bare_def) blast
qed




text \<open>
  \<^bold>\<open>C9.\<close> \<^verbatim>\<open>hasHeaderValue\<close> succeeds exactly when some value of the list equals the
  expected value, as strings compared byte for byte; it fails on the empty list and when
  every value differs. For a condition with a required header value, a request that
  passed the method and header-presence checks and carries the values \<open>vs\<close> under the
  named header is served exactly when \<^verbatim>\<open>hasHeaderValue\<close> succeeds on \<open>vs\<close>.
\<close>

theorem hasHeaderValue_any_equal:
  "(hasHeaderValue v vs \<longleftrightarrow> (\<exists>x \<in> set vs. x = v))
   \<and> \<not> hasHeaderValue v []
   \<and> ((\<forall>x \<in> set vs. x \<noteq> v) \<longrightarrow> \<not> hasHeaderValue v vs)
   \<and> (headerValue c = Some hv \<and> \<not> methodMismatch c r \<and> \<not> headerMissing c r
        \<and> Header r (Key hv) = Some vs \<longrightarrow>
        dispatch c h r w = (if hasHeaderValue (Value hv) vs then h r w else Inr w))"
proof -
  have elem: "hasHeaderValue v vs \<longleftrightarrow> v \<in> set vs" for v vs
    by (induction vs) auto
  have served: "dispatch c h r w = (if hasHeaderValue (Value hv) vs then h r w else Inr w)"
    if "headerValue c = Some hv" "\<not> methodMismatch c r" "\<not> headerMissing c r"
      "Header r (Key hv) = Some vs"
    using that by (simp add: dispatch_Matched Matched_def headerValueMismatch_def elem)
  from elem [of v vs] elem [of v "[]"] served show ?thesis by auto
qed

theorem hasHeaderValue_any_equal_witness:
  "''someValue'' \<notin> set [''someWrongValue'', ''SomeValue'', ''someValue '']
   \<and> \<not> hasHeaderValue ''someValue'' [''someWrongValue'', ''SomeValue'', ''someValue '']
   \<and> ''someValue'' \<in> set [''a'', ''someValue'']
   \<and> hasHeaderValue ''someValue'' [''a'', ''someValue'']
   \<and> headerValue condD = Some \<lparr>Key = ''X-Key'', Value = ''someValue''\<rparr>
   \<and> \<not> methodMismatch condD (keyed ''/d'') \<and> \<not> headerMissing condD (keyed ''/d'')
   \<and> Header (keyed ''/d'') ''X-Key'' = Some [''someValue'']
   \<and> dispatch condD sampleHandler (keyed ''/d'') fresh = sampleHandler (keyed ''/d'') fresh"
proof -
  have 1: "headerValue condD = Some \<lparr>Key = ''X-Key'', Value = ''someValue''\<rparr>"
    by (simp add: condD_def emptyCondition_def)
  have 2: "\<not> methodMismatch condD (keyed ''/d'')" "\<not> headerMissing condD (keyed ''/d'')"
    by (simp_all add: methodMismatch_def headerMissing_def condD_def emptyCondition_def keyed_def)
  have 3: "Header (keyed ''/d'') ''X-Key'' = Some [''someValue'']"
    by (simp add: keyed_def)
  from hasHeaderValue_any_equal [of "''someValue''" "[''someWrongValue'', ''SomeValue'', ''someValue '']"]
    hasHeaderValue_any_equal [of "''someValue''" "[''a'', ''someValue'']"]
    hasHeaderValue_any_equal [of "''someValue''" "[''someValue'']"
      condD "\<lparr>Key = ''X-Key'', Value = ''someValue''\<rparr>" "keyed ''/d''" sampleHandler fresh]
    1 2 3
  show ?thesis by simp
qed

text \<open>
  \<^bold>\<open>C10.\<close> As stated the claim fails: a registry that holds a condition with neither
  action and a condition with both passes \<^verbatim>\<open>validateConditions\<close>, and \<^verbatim>\<open>Serve\<close> goes on to
  listen on the port and to serve.
\<close>

theorem validation_misses_actions_counterexample:
  "handlerFunc neither = None \<and> routeRequest neither = None
   \<and> handlerFunc both \<noteq> None \<and> routeRequest both \<noteq> None
   \<and> validateConditions ((NewGag \<lparr>Port = 8080\<rparr>)\<lparr>conditions := [neither, both]\<rparr>) = None
   \<and> fst (Serve sys8080 testEnv ((NewGag \<lparr>Port = 8080\<rparr>)\<lparr>conditions := [neither, both]\<rparr>))
       = Serving
   \<and> hd (snd (snd (Serve sys8080 testEnv
          ((NewGag \<lparr>Port = 8080\<rparr>)\<lparr>conditions := [neither, both]\<rparr>)))) = NetListen '':8080''"
  by (simp add: neither_def both_def emptyCondition_def validateConditions_def NewGag_def
      Serve_def listenHTTP_def sys8080_def configureHandler_def newServer_def serve_def Let_def
      decimal_8080)

text \<open>
  \<^bold>\<open>C10, amended.\<close> \<^verbatim>\<open>Serve\<close> validates the registry before anything else: validation
  succeeds exactly when every registered condition has a non-empty path; when it fails,
  \<^verbatim>\<open>Serve\<close> returns the error \<^verbatim>\<open>path cannot be ""\<close> with the gateway unchanged and
  without any action, neither listening nor serving; when it succeeds, \<^verbatim>\<open>Serve\<close> is
  \<^verbatim>\<open>listenHTTP\<close> on the configured port.
\<close>

theorem Serve_validates_paths:
  "(validateConditions g = None \<longleftrightarrow> (\<forall>c \<in> set (conditions g). path c \<noteq> []))
   \<and> (validateConditions g = Some err \<longrightarrow>
        err = Err (''path cannot be '' @ [CHR 0x22, CHR 0x22])
        \<and> Serve s e g = (Returned (Some err), g, []))
   \<and> (validateConditions g = None \<longrightarrow> Serve s e g = listenHTTP s e (port g) g)"
proof (cases "validateLoop (conditions g)")
  case None
  then show ?thesis
    using validateLoop_None [of "conditions g"] by (simp add: validateConditions_def Serve_def)
next
  case (Some err')
  then show ?thesis
    using validateLoop_None [of "conditions g"] validateLoop_Some [OF Some]
    by (simp add: validateConditions_def Serve_def)
qed

theorem Serve_validates_paths_witness:
  "validateConditions ((NewGag \<lparr>Port = 8080\<rparr>)\<lparr>conditions := [condA, emptyCondition]\<rparr>)
     = Some (Err (''path cannot be '' @ [CHR 0x22, CHR 0x22]))
   \<and> path emptyCondition = []
   \<and> Serve sys8080 testEnv ((NewGag \<lparr>Port = 8080\<rparr>)\<lparr>conditions := [condA, emptyCondition]\<rparr>)
     = (Returned (Some (Err (''path cannot be '' @ [CHR 0x22, CHR 0x22]))),
        (NewGag \<lparr>Port = 8080\<rparr>)\<lparr>conditions := [condA, emptyCondition]\<rparr>, [])
   \<and> validateConditions ((NewGag \<lparr>Port = 8080\<rparr>)\<lparr>conditions := [condA]\<rparr>) = None
   \<and> path condA \<noteq> []
   \<and> Serve sys8080 testEnv ((NewGag \<lparr>Port = 8080\<rparr>)\<lparr>conditions := [condA]\<rparr>)
     = listenHTTP sys8080 testEnv 8080 ((NewGag \<lparr>Port = 8080\<rparr>)\<lparr>conditions := [condA]\<rparr>)"
proof -
  let ?g = "(NewGag \<lparr>Port = 8080\<rparr>)\<lparr>conditions := [condA, emptyCondition]\<rparr>"
  let ?g' = "(NewGag \<lparr>Port = 8080\<rparr>)\<lparr>conditions := [condA]\<rparr>"
  let ?err = "Err (''path cannot be '' @ [CHR 0x22, CHR 0x22])"
  have 1: "validateConditions ?g = Some ?err"
    by (simp add: validateConditions_def condA_def emptyCondition_def)
  have 2: "validateConditions ?g' = None"
    by (simp add: validateConditions_def condA_def emptyCondition_def)
  have 3: "path emptyCondition = []" "path condA \<noteq> []" "port ?g' = 8080"
    by (simp_all add: condA_def emptyCondition_def NewGag_def)
  from Serve_validates_paths [of ?g ?err sys8080 testEnv]
    Serve_validates_paths [of ?g' ?err sys8080 testEnv] 1 2 3
  show ?thesis by simp
qed

end
